theory Spec2Isabelle
  imports Main "HOL-Library.Sublist"
begin

section \<open>Data model (state.py, nodes.py)\<close>

text \<open>
  \<^verbatim>\<open>Document\<close>, \<^verbatim>\<open>GraphError\<close> and \<^verbatim>\<open>GraphState\<close> are the TypedDicts of state.py.
  The step and the error type of a \<^verbatim>\<open>GraphError\<close> are Python string literals and stay
  strings. A citation is the dict with the keys id, url and title that
  \<^verbatim>\<open>synthesize_node\<close> builds. Python's unbounded ints are \<open>int\<close>. A run starts from
  a state that holds every key (main.py and the tests build a full \<^verbatim>\<open>GraphState\<close>), so
  the state is a record and the defaults of \<^verbatim>\<open>state.get\<close> are never taken.
\<close>

record document =
  url :: string
  title :: string
  content :: string

record graph_error =
  step :: string
  error_type :: string
  message :: string

record citation =
  cit_id :: int
  cit_url :: string
  cit_title :: string

record graph_state =
  question :: string
  queries :: "string list"
  documents :: "document list"
  need_more :: bool
  final_answer :: string
  citations :: "citation list"
  loop_count :: int
  max_iter :: int
  errors :: "graph_error list"

text \<open>
  An exception raised by a collaborator: \<^verbatim>\<open>openai.RateLimitError\<close>, which
  \<^verbatim>\<open>generate_queries_node\<close> catches by class, or any other \<^verbatim>\<open>Exception\<close>. The
  string is \<^verbatim>\<open>str(e)\<close>. A collaborator call either raises (\<open>Inl\<close>) or returns
  (\<open>Inr\<close>).
\<close>

datatype exc = RateLimitError string | OtherException string

fun str_exc :: "exc \<Rightarrow> string" where
  "str_exc (RateLimitError m) = m"
| "str_exc (OtherException m) = m"

text \<open>The pydantic models \<^verbatim>\<open>ReflectOutput\<close> and \<^verbatim>\<open>SynthesizeOutput\<close>.\<close>

record reflect_output =
  out_need_more :: bool
  new_queries :: "string list option"

record synthesize_output =
  answer :: string
  cited_ids :: "int list"

text \<open>
  A node returns a dict holding some of the keys of the state; the graph writes each key
  that is present over the state's value (the state's channels have no reducer) and leaves
  the others as they are.
\<close>

record update =
  u_queries :: "string list option"
  u_documents :: "document list option"
  u_need_more :: "bool option"
  u_final_answer :: "string option"
  u_citations :: "citation list option"
  u_loop_count :: "int option"
  u_errors :: "graph_error list option"

definition empty_update :: update where
  "empty_update = \<lparr>u_queries = None, u_documents = None, u_need_more = None,
     u_final_answer = None, u_citations = None, u_loop_count = None, u_errors = None\<rparr>"

definition apply_update :: "graph_state \<Rightarrow> update \<Rightarrow> graph_state" where
  "apply_update s u =
     s\<lparr>queries := (case u_queries u of None \<Rightarrow> queries s | Some v \<Rightarrow> v),
       documents := (case u_documents u of None \<Rightarrow> documents s | Some v \<Rightarrow> v),
       need_more := (case u_need_more u of None \<Rightarrow> need_more s | Some v \<Rightarrow> v),
       final_answer := (case u_final_answer u of None \<Rightarrow> final_answer s | Some v \<Rightarrow> v),
       citations := (case u_citations u of None \<Rightarrow> citations s | Some v \<Rightarrow> v),
       loop_count := (case u_loop_count u of None \<Rightarrow> loop_count s | Some v \<Rightarrow> v),
       errors := (case u_errors u of None \<Rightarrow> errors s | Some v \<Rightarrow> v)\<rparr>"

section \<open>Retrieval (tools.py)\<close>

text \<open>
  \<^verbatim>\<open>WebSearchTool.run_concurrent\<close>. The search function (Tavily or the mock) is a
  parameter: called on a query it returns a list of documents or raises. One task is
  created per query; \<^verbatim>\<open>asyncio.gather(*tasks, return_exceptions=True)\<close> returns, in the
  order of the queries, each task's list or the exception it raised. The results that are
  lists are flattened and then de-duplicated by url with a set of the urls seen.
  The second component of the result is the list of the queries a search call was
  issued for.
\<close>

fun flatten_results :: "(exc + document list) list \<Rightarrow> document list" where
  "flatten_results [] = []"
| "flatten_results (Inr res # rest) = res @ flatten_results rest"
| "flatten_results (Inl e # rest) = flatten_results rest"

fun unique_loop :: "document list \<Rightarrow> string set \<Rightarrow> document list \<Rightarrow> document list" where
  "unique_loop [] seen_urls unique_results = unique_results"
| "unique_loop (result # rest) seen_urls unique_results =
     (if url result \<notin> seen_urls
      then unique_loop rest (insert (url result) seen_urls) (unique_results @ [result])
      else unique_loop rest seen_urls unique_results)"

definition run_concurrent ::
  "(string \<Rightarrow> exc + document list) \<Rightarrow> string list \<Rightarrow> document list \<times> string list" where
  "run_concurrent search_func qs =
     (let tasks = map (\<lambda>q. (q, search_func q)) qs;
          results_lists = map snd tasks;
          flat_results = flatten_results results_lists
      in (unique_loop flat_results {} [], map fst tasks))"

section \<open>Nodes (nodes.py)\<close>

definition log_error :: "string \<Rightarrow> string \<Rightarrow> string \<Rightarrow> update" where
  "log_error st ty msg =
     empty_update\<lparr>u_errors := Some [\<lparr>step = st, error_type = ty, message = msg\<rparr>]\<rparr>"

text \<open>
  \<^verbatim>\<open>generate_queries_node\<close>. The prompt template is built before the \<^verbatim>\<open>try\<close>, from a
  string that holds the question: \<open>prompt\<close> is \<^verbatim>\<open>ChatPromptTemplate.from_messages\<close> as a
  function of the question, and what it raises (on a question with an unbalanced brace,
  say) leaves the node. The chain is invoked inside the \<^verbatim>\<open>try\<close>: \<open>llm\<close> is
  \<^verbatim>\<open>chain.invoke\<close> as a function of the prompt built.
\<close>

definition generate_queries_node ::
  "(string \<Rightarrow> exc + string) \<Rightarrow> (string \<Rightarrow> exc + string list) \<Rightarrow> graph_state
     \<Rightarrow> exc + update" where
  "generate_queries_node prompt llm s =
     (case prompt (question s) of
        Inl e \<Rightarrow> Inl e
      | Inr p \<Rightarrow>
          (case llm p of
             Inr result_queries \<Rightarrow> Inr (empty_update\<lparr>u_queries := Some result_queries\<rparr>)
           | Inl (RateLimitError m) \<Rightarrow>
               Inr ((log_error ''generate'' ''RateLimit'' m)\<lparr>u_queries := Some []\<rparr>)
           | Inl (OtherException m) \<Rightarrow>
               Inr ((log_error ''generate'' ''LLMFailure'' m)\<lparr>u_queries := Some []\<rparr>)))"

text \<open>
  \<^verbatim>\<open>web_search_node\<close>: \<open>tool\<close> is \<^verbatim>\<open>search_tool.run_concurrent\<close> run to completion
  by \<^verbatim>\<open>asyncio.run\<close>; it returns the batch's documents or raises. Python's
  \<^verbatim>\<open>"429" in str(e)\<close> is \<open>sublist\<close>.
\<close>

definition web_search_node ::
  "(string list \<Rightarrow> exc + document list) \<Rightarrow> graph_state \<Rightarrow> exc + update" where
  "web_search_node tool s =
     (case tool (queries s) of
        Inr docs \<Rightarrow>
          (let existing_docs = documents s;
               all_docs = existing_docs @ docs
           in Inr (empty_update\<lparr>u_documents := Some all_docs, u_queries := Some []\<rparr>))
      | Inl e \<Rightarrow>
          (if sublist ''429'' (str_exc e) \<or> sublist ''Too Many Requests'' (str_exc e)
           then Inr ((log_error ''search'' ''RateLimit'' (str_exc e))
                       \<lparr>u_documents := Some (documents s)\<rparr>)
           else Inr ((log_error ''search'' ''HTTPError'' (str_exc e))
                       \<lparr>u_documents := Some (documents s)\<rparr>)))"

text \<open>The tool as tools.py implements it, over a search function.\<close>

definition WebSearchTool ::
  "(string \<Rightarrow> exc + document list) \<Rightarrow> string list \<Rightarrow> exc + document list" where
  "WebSearchTool search_func qs = Inr (fst (run_concurrent search_func qs))"

text \<open>
  \<^verbatim>\<open>reflect_node\<close>: the prompt is built and the chain is invoked outside any \<^verbatim>\<open>try\<close>,
  so what either raises leaves the node; \<open>llm\<close> stands for both, as a function of the
  question and the documents that go into the prompt. \<^verbatim>\<open>result.new_queries or []\<close> turns
  \<^verbatim>\<open>None\<close> into the empty list.
\<close>

definition reflect_node ::
  "(string \<Rightarrow> document list \<Rightarrow> exc + reflect_output) \<Rightarrow> graph_state \<Rightarrow> exc + update" where
  "reflect_node llm s =
     (case llm (question s) (documents s) of
        Inl e \<Rightarrow> Inl e
      | Inr result \<Rightarrow>
          Inr (empty_update\<lparr>u_need_more := Some (out_need_more result),
                 u_queries := Some (case new_queries result of None \<Rightarrow> [] | Some qs \<Rightarrow> qs),
                 u_loop_count := Some (loop_count s + 1)\<rparr>))"

section \<open>Python built-ins used by the synthesis step\<close>

text \<open>
  \<^verbatim>\<open>str(n)\<close> of an int, as the f-string \<^verbatim>\<open>f"[{n}]"\<close> renders it: decimal digits, with a
  minus sign for a negative number.
\<close>

fun str_nat :: "nat \<Rightarrow> string" where
  "str_nat n =
     (if n < 10 then [''0123456789'' ! n]
      else str_nat (n div 10) @ [''0123456789'' ! (n mod 10)])"

declare str_nat.simps [simp del]

definition str_int :: "int \<Rightarrow> string" where
  "str_int i = (if i < 0 then ''-'' @ str_nat (nat (- i)) else str_nat (nat i))"

text \<open>
  \<^verbatim>\<open>s.strip()\<close> removes leading and trailing whitespace. A character of a string is
  a code point below 256 here, and the whitespace is that of Python's \<^verbatim>\<open>str\<close> in this
  range: tab, line feed, vertical tab, form feed, carriage return, the separators 0x1C to
  0x1F, the space, the next-line character 0x85 and the no-break space 0xA0. Text with a
  code point from 256 on cannot be written as a \<open>string\<close> and is outside the model.
\<close>

definition isspace :: "char \<Rightarrow> bool" where
  "isspace c = (c \<in> set [CHR 0x09, CHR 0x0A, CHR 0x0B, CHR 0x0C, CHR 0x0D,
                          CHR 0x1C, CHR 0x1D, CHR 0x1E, CHR 0x1F, CHR '' '',
                          CHR 0x85, CHR 0xA0])"

definition strip :: "string \<Rightarrow> string" where
  "strip s = rev (dropWhile isspace (rev (dropWhile isspace s)))"

section \<open>Synthesis and citation remapping (nodes.py)\<close>

text \<open>
  The dict \<^verbatim>\<open>original_citations_map\<close>, filled while enumerating the documents: key
  \<^verbatim>\<open>i + 1\<close> for the document at index \<^verbatim>\<open>i\<close>.
\<close>

definition original_citations_map :: "document list \<Rightarrow> (int \<rightharpoonup> document)" where
  "original_citations_map docs =
     fold (\<lambda>(i, doc) m. m(int i + 1 \<mapsto> doc)) (enumerate 0 docs) Map.empty"

text \<open>
  The loop over \<^verbatim>\<open>cited_original_ids_from_llm\<close>, with its three variables
  \<^verbatim>\<open>final_citations_list\<close>, \<^verbatim>\<open>seen_urls\<close> and \<^verbatim>\<open>original_to_new_id_map\<close>. A document
  dict is never empty, so \<^verbatim>\<open>if doc\<close> asks whether the id was found.
\<close>

fun remap_loop ::
  "(int \<rightharpoonup> document) \<Rightarrow> int list \<Rightarrow> citation list \<Rightarrow> string set \<Rightarrow> (int \<rightharpoonup> int)
     \<Rightarrow> citation list \<times> (int \<rightharpoonup> int)" where
  "remap_loop ocm [] final_citations_list seen_urls original_to_new_id_map =
     (final_citations_list, original_to_new_id_map)"
| "remap_loop ocm (original_id # rest) final_citations_list seen_urls original_to_new_id_map =
     (case ocm original_id of
        None \<Rightarrow> remap_loop ocm rest final_citations_list seen_urls original_to_new_id_map
      | Some doc \<Rightarrow>
          (if url doc \<notin> seen_urls
           then (let new_id = int (length final_citations_list) + 1
                 in remap_loop ocm rest
                      (final_citations_list @
                         [\<lparr>cit_id = new_id, cit_url = url doc, cit_title = title doc\<rparr>])
                      (insert (url doc) seen_urls)
                      (original_to_new_id_map(original_id \<mapsto> new_id)))
           else remap_loop ocm rest final_citations_list seen_urls original_to_new_id_map))"

text \<open>
  The marker string: \<^verbatim>\<open>original_to_new_id_map.get(_id, _id)\<close> falls back to the id
  itself when the map has no entry for it.
\<close>

definition citation_string_at_end :: "(int \<rightharpoonup> int) \<Rightarrow> int list \<Rightarrow> string" where
  "citation_string_at_end original_to_new_id_map ids =
     (if ids \<noteq> []
      then concat (map (\<lambda>i. ''['' @ str_int (case original_to_new_id_map i of
                                                 None \<Rightarrow> i | Some new_id \<Rightarrow> new_id) @ '']'') ids)
      else [])"

definition error_answer :: string where
  "error_answer = ''I'' @ [CHR 0x27] @ ''m unable to provide a complete answer at this time because of an error. Please try again later.''"

definition no_information_answer :: string where
  "no_information_answer = ''No information found.''"

text \<open>
  \<^verbatim>\<open>synthesize_node\<close>: the two early returns, then the prompt and the chain (built and
  invoked outside any \<^verbatim>\<open>try\<close>; \<open>llm\<close> stands for both) on the question and the
  numbered documents, then the remapping.
\<close>

definition synthesize_node ::
  "(string \<Rightarrow> document list \<Rightarrow> exc + synthesize_output) \<Rightarrow> graph_state \<Rightarrow> exc + update" where
  "synthesize_node llm s =
     (if errors s \<noteq> []
      then Inr (empty_update\<lparr>u_final_answer := Some error_answer, u_citations := Some []\<rparr>)
      else if documents s = []
      then Inr (empty_update\<lparr>u_final_answer := Some no_information_answer,
                  u_citations := Some []\<rparr>)
      else (case llm (question s) (documents s) of
              Inl e \<Rightarrow> Inl e
            | Inr llm_result \<Rightarrow>
                (let ids = cited_ids llm_result;
                     (final_citations_list, original_to_new_id_map) =
                        remap_loop (original_citations_map (documents s)) ids [] {} Map.empty;
                     full_answer =
                        strip (answer llm_result @
                               citation_string_at_end original_to_new_id_map ids)
                 in Inr (empty_update\<lparr>u_final_answer := Some full_answer,
                           u_citations := Some final_citations_list\<rparr>))))"

section \<open>The graph (graph.py)\<close>

datatype node = GENERATE_QUERIES | WEB_SEARCH | REFLECT | SYNTHESIZE

definition state_has_error :: "graph_state \<Rightarrow> bool" where
  "state_has_error s = (errors s \<noteq> [])"

definition should_continue_after_generate :: "graph_state \<Rightarrow> string" where
  "should_continue_after_generate s =
     (if state_has_error s then ''end_step'' else ''next_step'')"

definition should_continue_after_search :: "graph_state \<Rightarrow> string" where
  "should_continue_after_search s =
     (if state_has_error s \<or> documents s = [] then ''end_step'' else ''next_step'')"

definition should_continue_after_reflect :: "graph_state \<Rightarrow> string" where
  "should_continue_after_reflect s =
     (if state_has_error s then ''end_step''
      else if need_more s \<and> loop_count s < max_iter s then ''next_step''
      else ''end_step'')"

text \<open>
  The conditional edges and the edge from synthesize to \<^verbatim>\<open>END\<close> (\<open>None\<close>). Each router
  returns one of the two keys of its edge table.
\<close>

fun edges :: "node \<Rightarrow> graph_state \<Rightarrow> node option" where
  "edges GENERATE_QUERIES s =
     (if should_continue_after_generate s = ''next_step'' then Some WEB_SEARCH
      else Some SYNTHESIZE)"
| "edges WEB_SEARCH s =
     (if should_continue_after_search s = ''next_step'' then Some REFLECT
      else Some SYNTHESIZE)"
| "edges REFLECT s =
     (if should_continue_after_reflect s = ''next_step'' then Some WEB_SEARCH
      else Some SYNTHESIZE)"
| "edges SYNTHESIZE s = None"

text \<open>
  The collaborators of a run. The search tool and the reflection chain are called once per
  round and may answer differently each time: their first argument is the number of calls
  made to them earlier in the run. \<open>search_tool\<close> is the method \<^verbatim>\<open>run_concurrent\<close> of
  whatever \<^verbatim>\<open>WebSearchTool()\<close> yields: \<open>WebSearchTool\<close> over a search function in the
  program as it is, any function when the class is replaced, as the tests do.
\<close>

record collaborators =
  generate_prompt :: "string \<Rightarrow> exc + string"
  generate_llm :: "string \<Rightarrow> exc + string list"
  search_tool :: "nat \<Rightarrow> string list \<Rightarrow> exc + document list"
  reflect_llm :: "nat \<Rightarrow> string \<Rightarrow> document list \<Rightarrow> exc + reflect_output"
  synthesize_llm :: "string \<Rightarrow> document list \<Rightarrow> exc + synthesize_output"

fun run_node :: "collaborators \<Rightarrow> node list \<Rightarrow> node \<Rightarrow> graph_state \<Rightarrow> exc + update" where
  "run_node env tr GENERATE_QUERIES s =
     generate_queries_node (generate_prompt env) (generate_llm env) s"
| "run_node env tr WEB_SEARCH s =
     web_search_node (search_tool env (count_list tr WEB_SEARCH)) s"
| "run_node env tr REFLECT s = reflect_node (reflect_llm env (count_list tr REFLECT)) s"
| "run_node env tr SYNTHESIZE s = synthesize_node (synthesize_llm env) s"

text \<open>
  \<^verbatim>\<open>app.invoke\<close>: run the node, write its update into the state, follow the edge chosen
  on the updated state, until \<^verbatim>\<open>END\<close>. An exception that leaves a node ends the run.
  The outcome carries the nodes executed, in order. The measure of termination is that of
  the loop: twice the distance from \<open>loop_count\<close> to \<open>max_iter\<close>, plus the position of
  the node in a round. The recursion limit of the graph library, which can only cut a run
  short, is left out.
\<close>

datatype outcome = Finished graph_state "node list" | Raised exc "node list"

fun node_rank :: "node \<Rightarrow> graph_state \<Rightarrow> nat" where
  "node_rank GENERATE_QUERIES s = 2 * nat (max_iter s - loop_count s) + 4"
| "node_rank WEB_SEARCH s = 2 * nat (max_iter s - loop_count s) + 3"
| "node_rank REFLECT s = 2 * nat (max_iter s - loop_count s) + 2"
| "node_rank SYNTHESIZE s = 0"

function invoke_from :: "collaborators \<Rightarrow> node \<Rightarrow> graph_state \<Rightarrow> node list \<Rightarrow> outcome" where
  "invoke_from env n s tr =
     (case run_node env tr n s of
        Inl e \<Rightarrow> Raised e (tr @ [n])
      | Inr u \<Rightarrow>
          (case edges n (apply_update s u) of
             None \<Rightarrow> Finished (apply_update s u) (tr @ [n])
           | Some n' \<Rightarrow> invoke_from env n' (apply_update s u) (tr @ [n])))"
  by pat_completeness auto

termination
proof (relation "measure (\<lambda>(env, n, s, tr). node_rank n s)")
  show "wf (measure (\<lambda>(env, n, s, tr). node_rank n s))" by simp
next
  fix env :: collaborators and n n' :: node and s :: graph_state and tr :: "node list"
    and u :: update
  assume run: "run_node env tr n s = Inr u" and edge: "edges n (apply_update s u) = Some n'"
  have "node_rank n' (apply_update s u) < node_rank n s"
  proof (cases n)
    case GENERATE_QUERIES
    with run have "loop_count (apply_update s u) = loop_count s"
      and "max_iter (apply_update s u) = max_iter s"
      by (auto simp: generate_queries_node_def apply_update_def empty_update_def log_error_def
               split: sum.splits exc.splits)
    with edge GENERATE_QUERIES show ?thesis by (auto split: if_splits)
  next
    case WEB_SEARCH
    with run have "loop_count (apply_update s u) = loop_count s"
      and "max_iter (apply_update s u) = max_iter s"
      by (auto simp: web_search_node_def apply_update_def empty_update_def log_error_def Let_def
               split: sum.splits if_splits)
    with edge WEB_SEARCH show ?thesis by (auto split: if_splits)
  next
    case REFLECT
    with run have "loop_count (apply_update s u) = loop_count s + 1"
      and "max_iter (apply_update s u) = max_iter s"
      by (auto simp: reflect_node_def apply_update_def empty_update_def split: sum.splits)
    with edge REFLECT show ?thesis
      by (auto simp: should_continue_after_reflect_def split: if_splits)
  next
    case SYNTHESIZE
    with edge show ?thesis by simp
  qed
  then show "((env, n', apply_update s u, tr @ [n]), (env, n, s, tr))
               \<in> measure (\<lambda>(env, n, s, tr). node_rank n s)"
    by simp
qed

declare invoke_from.simps [simp del]

text \<open>The entry point of the graph is generate_queries.\<close>

definition invoke :: "collaborators \<Rightarrow> graph_state \<Rightarrow> outcome" where
  "invoke env s = invoke_from env GENERATE_QUERIES s []"

text \<open>
  What remains of a run once a node's update has been written into the state: the edge
  out of node \<open>n\<close> taken on state \<open>s\<close>, and the run from its target.
\<close>

definition follow_edge :: "collaborators \<Rightarrow> node \<Rightarrow> graph_state \<Rightarrow> node list \<Rightarrow> outcome" where
  "follow_edge env n s tr =
     (case edges n s of
        None \<Rightarrow> Finished s (tr @ [n])
      | Some n' \<Rightarrow> invoke_from env n' s (tr @ [n]))"

fun trace_of :: "outcome \<Rightarrow> node list" where
  "trace_of (Finished s tr) = tr"
| "trace_of (Raised e tr) = tr"

text \<open>The number of times the web-search step ran.\<close>

definition search_rounds :: "outcome \<Rightarrow> nat" where
  "search_rounds r = count_list (trace_of r) WEB_SEARCH"

text \<open>The state \<^verbatim>\<open>run_agent\<close> (main.py) starts from, with \<^verbatim>\<open>MAX_ITER = 2\<close>.\<close>

definition initial_state :: "string \<Rightarrow> graph_state" where
  "initial_state q =
     \<lparr>question = q, queries = [], documents = [], need_more = False, final_answer = [],
      citations = [], loop_count = 0, max_iter = 2, errors = []\<rparr>"

section \<open>The test of the rate-limit run (tests/test_agent.py)\<close>

text \<open>
  \<^verbatim>\<open>test_agent_rate_limit_error\<close> asserts that the final answer "should mention rate
  limiting": one of five phrases occurs in the lower-cased answer. \<^verbatim>\<open>str.lower\<close> is
  modelled on the ASCII letters.
\<close>

definition lower :: "string \<Rightarrow> string" where
  "lower a =
     map (\<lambda>c. case map_of (zip ''ABCDEFGHIJKLMNOPQRSTUVWXYZ'' ''abcdefghijklmnopqrstuvwxyz'') c of
                 None \<Rightarrow> c | Some d \<Rightarrow> d) a"

definition rate_limit_phrases :: "string list" where
  "rate_limit_phrases =
     [''rate limit'', ''too many requests'', ''try again later'',
      ''temporarily unavailable'', ''service unavailable'']"

definition mentions_rate_limiting :: "string \<Rightarrow> bool" where
  "mentions_rate_limiting a = list_ex (\<lambda>p. sublist p (lower a)) rate_limit_phrases"

section \<open>The budget of search rounds\<close>

text \<open>
  The number of web-search steps a run can still execute when it is about to run node
  \<open>n\<close> on state \<open>s\<close>: the search about to run, if any, and one for each value of
  \<open>loop_count\<close> that reflection can still reach below \<open>max_iter\<close>.
\<close>

fun search_budget :: "node \<Rightarrow> graph_state \<Rightarrow> nat" where
  "search_budget GENERATE_QUERIES s = 1 + nat (max_iter s - loop_count s - 1)"
| "search_budget WEB_SEARCH s = 1 + nat (max_iter s - loop_count s - 1)"
| "search_budget REFLECT s = nat (max_iter s - loop_count s - 1)"
| "search_budget SYNTHESIZE s = 0"

section \<open>Concrete inputs\<close>

definition doc :: "string \<Rightarrow> string \<Rightarrow> document" where
  "doc u t = \<lparr>url = u, title = t, content = []\<rparr>"

text \<open>A search function that raises on one query and returns overlapping lists on others.\<close>

definition flaky_search :: "string \<Rightarrow> exc + document list" where
  "flaky_search q =
     (if q = ''bad'' then Inl (OtherException ''boom'')
      else if q = ''a'' then Inr [doc ''u1'' ''first'', doc ''u2'' ''second'']
      else Inr [doc ''u2'' ''other'', doc ''u3'' ''third'', doc ''u1'' ''late''])"

text \<open>A tool whose batch raises an HTTP 429, as the mock of the tests does.\<close>

definition rate_limited_tool :: "string list \<Rightarrow> exc + document list" where
  "rate_limited_tool qs = Inl (OtherException ''429, message=Too Many Requests'')"

text \<open>The two documents of the citation example, and a state holding them.\<close>

definition doc_A :: document where
  "doc_A = \<lparr>url = ''url1'', title = ''A'', content = ''a''\<rparr>"

definition doc_B :: document where
  "doc_B = \<lparr>url = ''url2'', title = ''B'', content = ''b''\<rparr>"

definition two_docs_state :: graph_state where
  "two_docs_state = (initial_state ''q'')\<lparr>documents := [doc_A, doc_B]\<rparr>"

text \<open>A synthesis chain that answers with a fixed text and the given ids.\<close>

definition fixed_synthesis :: "int list \<Rightarrow> string \<Rightarrow> document list \<Rightarrow> exc + synthesize_output" where
  "fixed_synthesis ids q docs = Inr \<lparr>answer = ''Paris.'', cited_ids = ids\<rparr>"

definition some_error :: graph_error where
  "some_error = \<lparr>step = ''search'', error_type = ''HTTPError'', message = ''boom''\<rparr>"

text \<open>
  Collaborators that never fail, with a reflection that asks for more on every round;
  the same with a search tool whose batch raises; the same with the program's own tool
  over a search function that raises an HTTP 429 on every query; the same with a
  reflection chain that raises.
\<close>

definition eager_collaborators :: collaborators where
  "eager_collaborators =
     \<lparr>generate_prompt = (\<lambda>q. Inr (''User question: '' @ q)),
      generate_llm = (\<lambda>p. Inr [''a'', ''b'']),
      search_tool = (\<lambda>i. WebSearchTool flaky_search),
      reflect_llm = (\<lambda>i q docs. Inr \<lparr>out_need_more = True, new_queries = Some [''a'']\<rparr>),
      synthesize_llm = fixed_synthesis [1]\<rparr>"




definition failing_reflect_collaborators :: collaborators where
  "failing_reflect_collaborators =
     eager_collaborators\<lparr>reflect_llm := (\<lambda>i q docs. Inl (RateLimitError ''quota exceeded''))\<rparr>"

section \<open>Retrieval: the batch and its de-duplication\<close>

lemma flatten_results_append:
  "flatten_results (xs @ ys) = flatten_results xs @ flatten_results ys"
  by (induction xs rule: flatten_results.induct) simp_all

text \<open>The accumulator of the de-duplication loop is a prefix of its result.\<close>

lemma unique_loop_acc:
  "unique_loop xs seen acc = acc @ unique_loop xs seen []"
proof (induction xs arbitrary: seen acc)
  case Nil
  show ?case by simp
next
  case (Cons x xs)
  show ?case
  proof (cases "url x \<in> seen")
    case True
    then show ?thesis using Cons.IH [of seen acc] by simp
  next
    case False
    have "unique_loop (x # xs) seen acc = unique_loop xs (insert (url x) seen) (acc @ [x])"
      using False by simp
    also have "\<dots> = (acc @ [x]) @ unique_loop xs (insert (url x) seen) []"
      by (rule Cons.IH)
    also have "\<dots> = acc @ unique_loop xs (insert (url x) seen) [x]"
      using Cons.IH [of "insert (url x) seen" "[x]"] by simp
    also have "\<dots> = acc @ unique_loop (x # xs) seen []"
      using False by simp
    finally show ?thesis .
  qed
qed

lemma unique_loop_Cons:
  "unique_loop (x # xs) seen [] =
     (if url x \<notin> seen then x # unique_loop xs (insert (url x) seen) []
      else unique_loop xs seen [])"
  using unique_loop_acc [of xs "insert (url x) seen" "[x]"] by simp

lemma unique_loop_urls:
  "set (map url (unique_loop xs seen [])) = set (map url xs) - seen"
  by (induction xs arbitrary: seen)
     (auto simp: unique_loop_Cons simp del: unique_loop.simps(2))

lemma unique_loop_distinct: "distinct (map url (unique_loop xs seen []))"
proof (induction xs arbitrary: seen)
  case Nil
  show ?case by simp
next
  case (Cons x xs)
  have "url x \<notin> set (map url (unique_loop xs (insert (url x) seen) []))"
    unfolding unique_loop_urls by simp
  with Cons show ?case by (simp add: unique_loop_Cons del: unique_loop.simps(2))
qed

lemma unique_loop_subseq: "subseq (unique_loop xs seen []) xs"
  by (induction xs arbitrary: seen)
     (auto simp: unique_loop_Cons simp del: unique_loop.simps(2))

lemma unique_loop_first:
  "u \<notin> seen \<Longrightarrow>
     find (\<lambda>r. url r = u) (unique_loop xs seen []) = find (\<lambda>r. url r = u) xs"
  by (induction xs arbitrary: seen)
     (auto simp: unique_loop_Cons simp del: unique_loop.simps(2))

lemma remdups_snoc: "remdups (zs @ [u]) = remdups (filter (\<lambda>z. z \<noteq> u) zs) @ [u]"
  by (induction zs) auto

text \<open>
  The urls of the result are the urls of the input not seen before, each at its first
  occurrence: \<open>remdups\<close> keeps the last occurrence, so it is applied to the reversed list.
\<close>

lemma unique_loop_url_order:
  "map url (unique_loop xs seen []) =
     rev (remdups (rev (filter (\<lambda>u. u \<notin> seen) (map url xs))))"
proof (induction xs arbitrary: seen)
  case Nil
  show ?case by simp
next
  case (Cons x xs)
  show ?case
  proof (cases "url x \<in> seen")
    case True
    then show ?thesis
      using Cons.IH [of seen] by (simp add: unique_loop_Cons del: unique_loop.simps(2))
  next
    case False
    have "map url (unique_loop (x # xs) seen []) =
          url x # rev (remdups (rev (filter (\<lambda>u. u \<notin> insert (url x) seen) (map url xs))))"
      using False Cons.IH [of "insert (url x) seen"]
      by (simp add: unique_loop_Cons del: unique_loop.simps(2))
    also have "\<dots> = rev (remdups (rev (filter (\<lambda>u. u \<notin> seen) (map url xs)) @ [url x]))"
      unfolding remdups_snoc by (simp add: rev_filter [symmetric] conj_commute)
    also have "\<dots> = rev (remdups (rev (filter (\<lambda>u. u \<notin> seen) (map url (x # xs)))))"
      using False by simp
    finally show ?thesis .
  qed
qed

text \<open>
  C8. For an empty list of queries the result is empty and no search call is issued. A
  query whose search call raises contributes no document and does not abort the batch: the
  documents are those of the batch without that query, and a call was still issued for
  every query. The documents returned have pairwise distinct urls, they are a subsequence
  of the flattened results, and for every url of the flattened results the document
  returned for it is the first one with that url. Their urls are the urls of the flattened
  results in the order of first appearance.
\<close>

theorem run_concurrent_contract:
  "run_concurrent search_func [] = ([], []) \<and>
   (search_func q = Inl e \<longrightarrow>
      run_concurrent search_func (qs1 @ q # qs2) =
        (fst (run_concurrent search_func (qs1 @ qs2)), qs1 @ q # qs2)) \<and>
   distinct (map url (fst (run_concurrent search_func qs))) \<and>
   subseq (fst (run_concurrent search_func qs)) (flatten_results (map search_func qs)) \<and>
   (\<forall>d \<in> set (flatten_results (map search_func qs)).
      find (\<lambda>r. url r = url d) (fst (run_concurrent search_func qs)) =
      find (\<lambda>r. url r = url d) (flatten_results (map search_func qs))) \<and>
   map url (fst (run_concurrent search_func qs)) =
     rev (remdups (rev (map url (flatten_results (map search_func qs)))))"
proof (intro conjI impI ballI)
  show "run_concurrent search_func [] = ([], [])"
    by (simp add: run_concurrent_def)
next
  assume "search_func q = Inl e"
  then have "flatten_results (map search_func (qs1 @ q # qs2)) =
             flatten_results (map search_func (qs1 @ qs2))"
    by (simp add: flatten_results_append)
  then show "run_concurrent search_func (qs1 @ q # qs2) =
        (fst (run_concurrent search_func (qs1 @ qs2)), qs1 @ q # qs2)"
    by (simp add: run_concurrent_def Let_def comp_def)
next
  show "distinct (map url (fst (run_concurrent search_func qs)))"
    by (simp add: run_concurrent_def Let_def comp_def unique_loop_distinct)
next
  show "subseq (fst (run_concurrent search_func qs)) (flatten_results (map search_func qs))"
    by (simp add: run_concurrent_def Let_def comp_def unique_loop_subseq)
next
  fix d
  show "find (\<lambda>r. url r = url d) (fst (run_concurrent search_func qs)) =
      find (\<lambda>r. url r = url d) (flatten_results (map search_func qs))"
    by (simp add: run_concurrent_def Let_def comp_def unique_loop_first)
next
  show "map url (fst (run_concurrent search_func qs)) =
     rev (remdups (rev (map url (flatten_results (map search_func qs)))))"
    using unique_loop_url_order [of "flatten_results (map search_func qs)" "{}"]
    by (simp add: run_concurrent_def Let_def comp_def)
qed

theorem run_concurrent_contract_witness:
  "flaky_search ''bad'' = Inl (OtherException ''boom'') \<and>
   run_concurrent flaky_search [''a'', ''bad'', ''b''] =
     ([doc ''u1'' ''first'', doc ''u2'' ''second'', doc ''u3'' ''third''],
      [''a'', ''bad'', ''b'']) \<and>
   run_concurrent flaky_search [''a'', ''b''] =
     ([doc ''u1'' ''first'', doc ''u2'' ''second'', doc ''u3'' ''third''], [''a'', ''b'']) \<and>
   doc ''u1'' ''late'' \<in> set (flatten_results (map flaky_search [''a'', ''bad'', ''b''])) \<and>
   find (\<lambda>r. url r = ''u1'') (fst (run_concurrent flaky_search [''a'', ''bad'', ''b''])) =
     Some (doc ''u1'' ''first'') \<and>
   map url (fst (run_concurrent flaky_search [''a'', ''bad'', ''b''])) = [''u1'', ''u2'', ''u3'']"
  using run_concurrent_contract [of flaky_search "''bad''" "OtherException ''boom''"
      "[''a'']" "[''b'']" "[''a'', ''bad'', ''b'']"]
  by (simp add: run_concurrent_def flaky_search_def doc_def)

section \<open>The web-search step\<close>

text \<open>
  C10. When the batch raises, the update returned by the web-search step holds the
  documents of the state as they were and has no entry for the queries; written into the
  state it leaves both fields as they were.
\<close>

theorem web_search_error_branch_frame:
  "tool (queries s) = Inl e \<Longrightarrow>
     \<exists>u. web_search_node tool s = Inr u \<and>
         u_documents u = Some (documents s) \<and> u_queries u = None \<and>
         documents (apply_update s u) = documents s \<and>
         queries (apply_update s u) = queries s"
  by (simp add: web_search_node_def log_error_def empty_update_def apply_update_def)

theorem web_search_error_branch_frame_witness:
  "rate_limited_tool [''capital of France''] = Inl (OtherException ''429, message=Too Many Requests'') \<and>
   (\<exists>u. web_search_node rate_limited_tool
          ((initial_state ''q'')\<lparr>queries := [''capital of France''],
                                 documents := [doc ''u1'' ''first'']\<rparr>) = Inr u \<and>
        u_documents u = Some [doc ''u1'' ''first''] \<and> u_queries u = None \<and>
        documents (apply_update ((initial_state ''q'')\<lparr>queries := [''capital of France''],
                                 documents := [doc ''u1'' ''first'']\<rparr>) u) = [doc ''u1'' ''first''] \<and>
        queries (apply_update ((initial_state ''q'')\<lparr>queries := [''capital of France''],
                                 documents := [doc ''u1'' ''first'']\<rparr>) u) = [''capital of France''])"
  using web_search_error_branch_frame [of rate_limited_tool
      "(initial_state ''q'')\<lparr>queries := [''capital of France''], documents := [doc ''u1'' ''first'']\<rparr>"
      "OtherException ''429, message=Too Many Requests''"]
  by (simp add: rate_limited_tool_def initial_state_def)

section \<open>Synthesis: the citation remapper\<close>

text \<open>The dict of original ids holds exactly the ids 1 to the number of documents.\<close>

lemma original_citations_map_fold:
  "fold (\<lambda>(i, d) m. m(int i + 1 \<mapsto> d)) (enumerate n docs) m0 k =
     (if int n + 1 \<le> k \<and> k \<le> int n + int (length docs)
      then Some (docs ! nat (k - int n - 1)) else m0 k)"
proof (induction docs arbitrary: n m0)
  case Nil
  show ?case by auto
next
  case (Cons d docs)
  let ?F = "\<lambda>(i, d) m. m(int i + 1 \<mapsto> d)"
  have "fold ?F (enumerate n (d # docs)) m0 k =
        fold ?F (enumerate (Suc n) docs) (m0(int n + 1 \<mapsto> d)) k"
    by simp
  also have "\<dots> = (if int (Suc n) + 1 \<le> k \<and> k \<le> int (Suc n) + int (length docs)
      then Some (docs ! nat (k - int (Suc n) - 1)) else (m0(int n + 1 \<mapsto> d)) k)"
    by (rule Cons.IH)
  also have "\<dots> = (if int n + 1 \<le> k \<and> k \<le> int n + int (length (d # docs))
      then Some ((d # docs) ! nat (k - int n - 1)) else m0 k)"
  proof (cases "k = int n + 1")
    case True
    then show ?thesis by simp
  next
    case False
    have "nat (k - int n - 1) - 1 = nat (k - int (Suc n) - 1)" by simp
    moreover have "int n + 1 \<le> k \<Longrightarrow> nat (k - int n - 1) \<noteq> 0" using False by simp
    ultimately show ?thesis using False by (auto simp: nth_Cons')
  qed
  finally show ?case .
qed

lemma original_citations_map_eq:
  "original_citations_map docs k =
     (if 1 \<le> k \<and> k \<le> int (length docs) then Some (docs ! nat (k - 1)) else None)"
  unfolding original_citations_map_def using original_citations_map_fold [of 0 docs Map.empty k]
  by simp

text \<open>An id that is not in the dict leaves the three variables of the loop as they are.\<close>

lemma remap_loop_skip:
  "ocm i = None \<Longrightarrow>
     remap_loop ocm (xs @ i # ys) fcl seen o2n = remap_loop ocm (xs @ ys) fcl seen o2n"
  by (induction xs arbitrary: fcl seen o2n) (auto simp: Let_def split: option.splits)

lemma remap_loop_no_entry:
  "ocm i = None \<Longrightarrow> o2n i = None \<Longrightarrow> snd (remap_loop ocm ids fcl seen o2n) i = None"
proof (induction ids arbitrary: fcl seen o2n)
  case Nil
  then show ?case by simp
next
  case (Cons a ids)
  show ?case
  proof (cases "ocm a")
    case None
    then show ?thesis using Cons by simp
  next
    case (Some d)
    with Cons.prems have "a \<noteq> i" by auto
    then have "\<And>v. (o2n(a \<mapsto> v)) i = None" using Cons.prems by simp
    then show ?thesis using Some Cons by (simp add: Let_def)
  qed
qed

lemma citation_string_at_end_concat:
  "citation_string_at_end o2n ids =
     concat (map (\<lambda>i. ''['' @ str_int (case o2n i of None \<Rightarrow> i | Some new_id \<Rightarrow> new_id) @ '']'') ids)"
  by (simp add: citation_string_at_end_def)

lemma citation_string_at_end_split:
  "o2n i = None \<Longrightarrow>
     citation_string_at_end o2n (xs @ i # ys) =
       citation_string_at_end o2n xs @ ''['' @ str_int i @ '']'' @ citation_string_at_end o2n ys"
  by (simp add: citation_string_at_end_concat)

lemma str_int_small: "str_int 1 = ''1''" "str_int 2 = ''2''" "str_int 99 = ''99''"
  by (simp_all add: str_int_def str_nat.simps)

text \<open>
  C1, as the claim states it, fails: with two documents and \<^verbatim>\<open>cited_ids = [99]\<close> the id
  99 is not in the dict of original ids, the citations list is empty, and yet the marker
  \<^verbatim>\<open>[99]\<close> is appended to the answer.
\<close>

theorem unresolved_id_marker_counterexample:
  "original_citations_map (documents two_docs_state) 99 = None \<and>
   synthesize_node (fixed_synthesis [99]) two_docs_state =
     Inr (empty_update\<lparr>u_final_answer := Some ''Paris.[99]'', u_citations := Some []\<rparr>)"
  by (simp add: synthesize_node_def two_docs_state_def initial_state_def fixed_synthesis_def
        doc_A_def doc_B_def original_citations_map_def citation_string_at_end_def
        str_int_small strip_def isspace_def)

text \<open>
  C1, amended. An id \<open>i\<close> outside the 1-based numbering of the documents contributes no
  entry to the citations list: the list, and the map of new ids, are those computed from
  the cited ids without \<open>i\<close>. In the marker string the id is rendered as it is, as
  \<^verbatim>\<open>[i]\<close>, at its position among the markers of the other ids.
\<close>

theorem unresolved_id_rendered_literally:
  assumes "errors s = []" and "documents s \<noteq> []"
    and "llm (question s) (documents s) = Inr out"
    and "cited_ids out = xs @ i # ys"
    and "i < 1 \<or> int (length (documents s)) < i"
  shows "\<exists>fcl o2n.
           remap_loop (original_citations_map (documents s)) (xs @ ys) [] {} Map.empty = (fcl, o2n) \<and>
           synthesize_node llm s =
             Inr (empty_update\<lparr>u_final_answer :=
                     Some (strip (answer out @ citation_string_at_end o2n xs @
                                  ''['' @ str_int i @ '']'' @ citation_string_at_end o2n ys)),
                   u_citations := Some fcl\<rparr>)"
proof -
  let ?ocm = "original_citations_map (documents s)"
  obtain fcl o2n where r: "remap_loop ?ocm (xs @ ys) [] {} Map.empty = (fcl, o2n)"
    by (cases "remap_loop ?ocm (xs @ ys) [] {} Map.empty") blast
  have none: "?ocm i = None"
    using assms(5) by (auto simp: original_citations_map_eq)
  have r': "remap_loop ?ocm (xs @ i # ys) [] {} Map.empty = (fcl, o2n)"
    using remap_loop_skip [of "original_citations_map (documents s)" i xs ys "[]" "{}" Map.empty] none r by simp
  have "snd (remap_loop ?ocm (xs @ i # ys) [] {} Map.empty) i = None"
    using remap_loop_no_entry [of "original_citations_map (documents s)" i Map.empty "xs @ i # ys" "[]" "{}"] none by simp
  then have "o2n i = None" using r' by simp
  then have "citation_string_at_end o2n (xs @ i # ys) =
       citation_string_at_end o2n xs @ ''['' @ str_int i @ '']'' @ citation_string_at_end o2n ys"
    by (rule citation_string_at_end_split)
  then have "synthesize_node llm s =
             Inr (empty_update\<lparr>u_final_answer :=
                     Some (strip (answer out @ citation_string_at_end o2n xs @
                                  ''['' @ str_int i @ '']'' @ citation_string_at_end o2n ys)),
                   u_citations := Some fcl\<rparr>)"
    using assms(1-4) r' by (simp add: synthesize_node_def)
  with r show ?thesis by blast
qed

theorem unresolved_id_rendered_literally_witness:
  "errors two_docs_state = [] \<and> documents two_docs_state \<noteq> [] \<and>
   fixed_synthesis [1, 99, 2] (question two_docs_state) (documents two_docs_state) =
     Inr \<lparr>answer = ''Paris.'', cited_ids = [1, 99, 2]\<rparr> \<and>
   ((99::int) < 1 \<or> int (length (documents two_docs_state)) < 99) \<and>
   synthesize_node (fixed_synthesis [1, 99, 2]) two_docs_state =
     Inr (empty_update\<lparr>u_final_answer := Some ''Paris.[1][99][2]'',
           u_citations := Some [\<lparr>cit_id = 1, cit_url = ''url1'', cit_title = ''A''\<rparr>,
                                \<lparr>cit_id = 2, cit_url = ''url2'', cit_title = ''B''\<rparr>]\<rparr>)"
  using unresolved_id_rendered_literally [of two_docs_state "fixed_synthesis [1, 99, 2]"
      "\<lparr>answer = ''Paris.'', cited_ids = [1, 99, 2]\<rparr>" "[1]" 99 "[2]"]
  by (simp add: two_docs_state_def initial_state_def fixed_synthesis_def
        doc_A_def doc_B_def original_citations_map_def citation_string_at_end_def
        str_int_small strip_def isspace_def)

text \<open>
  C6. With the evidence \<open>[a, b]\<close>, of different urls, and \<^verbatim>\<open>cited_ids = [2, 1, 2]\<close> the
  remapper yields the citations 1 for the url of \<open>b\<close> and 2 for the url of \<open>a\<close>, the
  map of new ids 2 to 1 and 1 to 2, and the marker string \<^verbatim>\<open>[1][2][1]\<close>: the repeated
  id renders its marker again and adds no citation. The final answer is the answer text
  followed by the markers, stripped.
\<close>

theorem citation_determinism:
  assumes "url a \<noteq> url b" and "errors s = []" and "documents s = [a, b]"
    and "llm (question s) (documents s) = Inr out"
    and "cited_ids out = [2, 1, 2]"
  shows "remap_loop (original_citations_map (documents s)) (cited_ids out) [] {} Map.empty =
           ([\<lparr>cit_id = 1, cit_url = url b, cit_title = title b\<rparr>,
             \<lparr>cit_id = 2, cit_url = url a, cit_title = title a\<rparr>], [2 \<mapsto> 1, 1 \<mapsto> 2]) \<and>
         citation_string_at_end [2 \<mapsto> 1, 1 \<mapsto> 2] (cited_ids out) = ''[1][2][1]'' \<and>
         synthesize_node llm s =
           Inr (empty_update\<lparr>u_final_answer := Some (strip (answer out @ ''[1][2][1]'')),
                 u_citations := Some [\<lparr>cit_id = 1, cit_url = url b, cit_title = title b\<rparr>,
                                      \<lparr>cit_id = 2, cit_url = url a, cit_title = title a\<rparr>]\<rparr>)"
proof -
  have r: "remap_loop (original_citations_map [a, b]) [2, 1, 2] [] {} Map.empty =
           ([\<lparr>cit_id = 1, cit_url = url b, cit_title = title b\<rparr>,
             \<lparr>cit_id = 2, cit_url = url a, cit_title = title a\<rparr>], [2 \<mapsto> 1, 1 \<mapsto> 2])"
    using assms(1) by (simp add: original_citations_map_def)
  have c: "citation_string_at_end [2 \<mapsto> 1, 1 \<mapsto> 2] [2, 1, 2] = ''[1][2][1]''"
    by (simp add: citation_string_at_end_def str_int_small)
  show ?thesis using assms(2-5) r c by (simp add: synthesize_node_def)
qed

theorem citation_determinism_witness:
  "url doc_A \<noteq> url doc_B \<and> errors two_docs_state = [] \<and>
   documents two_docs_state = [doc_A, doc_B] \<and>
   fixed_synthesis [2, 1, 2] (question two_docs_state) (documents two_docs_state) =
     Inr \<lparr>answer = ''Paris.'', cited_ids = [2, 1, 2]\<rparr> \<and>
   synthesize_node (fixed_synthesis [2, 1, 2]) two_docs_state =
     Inr (empty_update\<lparr>u_final_answer := Some ''Paris.[1][2][1]'',
           u_citations := Some [\<lparr>cit_id = 1, cit_url = ''url2'', cit_title = ''B''\<rparr>,
                                \<lparr>cit_id = 2, cit_url = ''url1'', cit_title = ''A''\<rparr>]\<rparr>)"
  using citation_determinism [of doc_A doc_B two_docs_state "fixed_synthesis [2, 1, 2]"
      "\<lparr>answer = ''Paris.'', cited_ids = [2, 1, 2]\<rparr>"]
  by (simp add: two_docs_state_def initial_state_def fixed_synthesis_def
        doc_A_def doc_B_def strip_def isspace_def)

section \<open>Synthesis: the early returns\<close>

text \<open>
  C7, as the claim states it, fails: with no document and an error recorded, the answer
  is the apology of the error branch, which is not the text of the empty-evidence branch.
\<close>

theorem empty_evidence_with_errors_counterexample:
  "documents ((initial_state ''q'')\<lparr>errors := [some_error]\<rparr>) = [] \<and>
   synthesize_node (fixed_synthesis [1]) ((initial_state ''q'')\<lparr>errors := [some_error]\<rparr>) =
     Inr (empty_update\<lparr>u_final_answer := Some error_answer, u_citations := Some []\<rparr>) \<and>
   error_answer \<noteq> no_information_answer"
  by (simp add: synthesize_node_def initial_state_def error_answer_def
        no_information_answer_def)

text \<open>
  C7, amended. With no document at synthesis time the citations are empty whatever the
  errors are; the answer is the fixed "No information found." text when no error is
  recorded and the fixed apology when one is. The synthesis chain is not consulted.
\<close>

theorem empty_evidence_answer:
  "documents s = [] \<Longrightarrow>
     synthesize_node llm s =
       Inr (empty_update\<lparr>u_final_answer :=
               Some (if errors s = [] then no_information_answer else error_answer),
             u_citations := Some []\<rparr>)"
  by (simp add: synthesize_node_def)

theorem empty_evidence_answer_witness:
  "documents (initial_state ''q'') = [] \<and>
   synthesize_node (fixed_synthesis [1]) (initial_state ''q'') =
     Inr (empty_update\<lparr>u_final_answer := Some ''No information found.'',
           u_citations := Some []\<rparr>)"
  using empty_evidence_answer [of "initial_state ''q''" "fixed_synthesis [1]"]
  by (simp add: initial_state_def no_information_answer_def)

section \<open>The run: errors end it\<close>

lemma invoke_from_follow_edge:
  "invoke_from env n s tr =
     (case run_node env tr n s of
        Inl e \<Rightarrow> Raised e (tr @ [n])
      | Inr u \<Rightarrow> follow_edge env n (apply_update s u) tr)"
  by (subst invoke_from.simps) (simp add: follow_edge_def split: sum.splits)

text \<open>
  C5. Let \<open>s\<close> be the state after the update of a step \<open>n\<close> other than synthesis, with an
  error recorded. The edge out of \<open>n\<close> leads to synthesis, synthesis returns the fixed
  apology and no citation whatever its chain would answer, and what remains of the run is
  that one synthesis step: no further search or reflection step is executed.
\<close>

theorem error_short_circuit:
  assumes "errors s \<noteq> []" and "n \<noteq> SYNTHESIZE"
  shows "edges n s = Some SYNTHESIZE \<and>
         synthesize_node llm s =
           Inr (empty_update\<lparr>u_final_answer := Some error_answer, u_citations := Some []\<rparr>) \<and>
         follow_edge env n s tr =
           Finished (s\<lparr>final_answer := error_answer, citations := []\<rparr>) (tr @ [n, SYNTHESIZE])"
proof -
  have e: "edges n s = Some SYNTHESIZE"
    using assms by (cases n) (simp_all add: should_continue_after_generate_def
        should_continue_after_search_def should_continue_after_reflect_def state_has_error_def)
  have sy: "\<And>llm. synthesize_node llm s =
           Inr (empty_update\<lparr>u_final_answer := Some error_answer, u_citations := Some []\<rparr>)"
    using assms(1) by (simp add: synthesize_node_def)
  have "invoke_from env SYNTHESIZE s (tr @ [n]) =
          Finished (s\<lparr>final_answer := error_answer, citations := []\<rparr>) (tr @ [n, SYNTHESIZE])"
    by (subst invoke_from.simps) (simp add: sy apply_update_def empty_update_def)
  with e sy show ?thesis by (simp add: follow_edge_def)
qed

theorem error_short_circuit_witness:
  "errors ((initial_state ''q'')\<lparr>errors := [some_error]\<rparr>) \<noteq> [] \<and> REFLECT \<noteq> SYNTHESIZE \<and>
   follow_edge eager_collaborators REFLECT ((initial_state ''q'')\<lparr>errors := [some_error]\<rparr>)
       [GENERATE_QUERIES, WEB_SEARCH] =
     Finished ((initial_state ''q'')\<lparr>errors := [some_error], final_answer := error_answer\<rparr>)
       [GENERATE_QUERIES, WEB_SEARCH, REFLECT, SYNTHESIZE]"
  using error_short_circuit [of "(initial_state ''q'')\<lparr>errors := [some_error]\<rparr>" REFLECT
      "fixed_synthesis [1]" eager_collaborators "[GENERATE_QUERIES, WEB_SEARCH]"]
  by (simp add: initial_state_def)

section \<open>The run: the bound on search rounds\<close>

lemma run_node_counters:
  assumes "run_node env tr n s = Inr u"
  shows "max_iter (apply_update s u) = max_iter s"
    and "loop_count (apply_update s u) = (if n = REFLECT then loop_count s + 1 else loop_count s)"
proof -
  have "max_iter (apply_update s u) = max_iter s \<and>
        loop_count (apply_update s u) = (if n = REFLECT then loop_count s + 1 else loop_count s)"
  proof (cases n)
    case GENERATE_QUERIES
    with assms show ?thesis
      by (auto simp: generate_queries_node_def apply_update_def empty_update_def log_error_def
               split: sum.splits exc.splits)
  next
    case WEB_SEARCH
    with assms show ?thesis
      by (auto simp: web_search_node_def apply_update_def empty_update_def log_error_def Let_def
               split: sum.splits if_splits)
  next
    case REFLECT
    with assms show ?thesis
      by (auto simp: reflect_node_def apply_update_def empty_update_def split: sum.splits)
  next
    case SYNTHESIZE
    with assms show ?thesis
      by (auto simp: synthesize_node_def apply_update_def empty_update_def Let_def
               split: sum.splits if_splits prod.splits)
  qed
  then show "max_iter (apply_update s u) = max_iter s"
    and "loop_count (apply_update s u) = (if n = REFLECT then loop_count s + 1 else loop_count s)"
    by simp_all
qed

lemma search_budget_step:
  assumes run: "run_node env tr n s = Inr u" and edge: "edges n (apply_update s u) = Some n'"
  shows "(if n = WEB_SEARCH then 1 else 0) + search_budget n' (apply_update s u)
           \<le> search_budget n s"
proof (cases n)
  case GENERATE_QUERIES
  with edge run_node_counters [OF run] show ?thesis by (auto split: if_splits)
next
  case WEB_SEARCH
  with edge run_node_counters [OF run] show ?thesis by (auto split: if_splits)
next
  case REFLECT
  with edge run_node_counters [OF run] show ?thesis
    by (auto simp: should_continue_after_reflect_def split: if_splits)
next
  case SYNTHESIZE
  with edge show ?thesis by simp
qed

lemma search_rounds_from:
  "count_list (trace_of (invoke_from env n s tr)) WEB_SEARCH
     \<le> count_list tr WEB_SEARCH + search_budget n s"
proof (induction env n s tr rule: invoke_from.induct)
  case (1 env n s tr)
  show ?case
  proof (cases "run_node env tr n s")
    case (Inl e)
    then have "invoke_from env n s tr = Raised e (tr @ [n])"
      by (subst invoke_from.simps) simp
    then show ?thesis by (cases n) simp_all
  next
    case (Inr u)
    show ?thesis
    proof (cases "edges n (apply_update s u)")
      case None
      then have "n = SYNTHESIZE" by (cases n) (simp_all split: if_splits)
      moreover have "invoke_from env n s tr = Finished (apply_update s u) (tr @ [n])"
        using Inr None by (subst invoke_from.simps) simp
      ultimately show ?thesis by simp
    next
      case (Some n')
      have eq: "invoke_from env n s tr = invoke_from env n' (apply_update s u) (tr @ [n])"
        using Inr Some by (subst invoke_from.simps) simp
      have "count_list (trace_of (invoke_from env n' (apply_update s u) (tr @ [n]))) WEB_SEARCH
              \<le> count_list (tr @ [n]) WEB_SEARCH + search_budget n' (apply_update s u)"
        by (rule "1.IH" [OF Inr Some])
      also have "\<dots> = count_list tr WEB_SEARCH +
                 ((if n = WEB_SEARCH then 1 else 0) + search_budget n' (apply_update s u))"
        by simp
      also have "\<dots> \<le> count_list tr WEB_SEARCH + search_budget n s"
        using search_budget_step [OF Inr Some] by simp
      finally show ?thesis using eq by simp
    qed
  qed
qed

text \<open>
  C4, as the claim states it, fails at \<open>max_iter = 0\<close>: the first search round is reached
  from query generation by an edge that does not look at \<open>max_iter\<close>, so it runs once.
\<close>

theorem search_rounds_zero_budget_counterexample:
  "max_iter ((initial_state ''q'')\<lparr>max_iter := 0\<rparr>) = 0 \<and>
   trace_of (invoke eager_collaborators ((initial_state ''q'')\<lparr>max_iter := 0\<rparr>)) =
     [GENERATE_QUERIES, WEB_SEARCH, REFLECT, SYNTHESIZE] \<and>
   search_rounds (invoke eager_collaborators ((initial_state ''q'')\<lparr>max_iter := 0\<rparr>)) = 1"
  by (simp add: invoke_def invoke_from.simps search_rounds_def eager_collaborators_def
        initial_state_def generate_queries_node_def web_search_node_def reflect_node_def
        synthesize_node_def WebSearchTool_def run_concurrent_def flaky_search_def doc_def
        fixed_synthesis_def apply_update_def empty_update_def
        should_continue_after_generate_def should_continue_after_search_def
        should_continue_after_reflect_def state_has_error_def
        original_citations_map_def citation_string_at_end_def str_int_small
        strip_def isspace_def)

text \<open>
  C4, amended. In a run that starts with \<open>loop_count = 0\<close>, whatever the collaborators
  answer on each round, the web-search step is executed at most \<open>max 1 max_iter\<close> times:
  at most \<open>max_iter\<close> times when \<open>max_iter\<close> is at least 1, and at most once otherwise.
\<close>

theorem search_rounds_bound:
  "loop_count s = 0 \<Longrightarrow> search_rounds (invoke env s) \<le> max 1 (nat (max_iter s))"
  using search_rounds_from [of env GENERATE_QUERIES s "[]"]
  by (simp add: search_rounds_def invoke_def)

theorem search_rounds_bound_witness:
  "loop_count (initial_state ''q'') = 0 \<and>
   search_rounds (invoke eager_collaborators (initial_state ''q'')) = 2 \<and>
   max 1 (nat (max_iter (initial_state ''q''))) = 2"
  using search_rounds_bound [of "initial_state ''q''" eager_collaborators]
  by (simp add: invoke_def invoke_from.simps search_rounds_def eager_collaborators_def
        initial_state_def generate_queries_node_def web_search_node_def reflect_node_def
        synthesize_node_def WebSearchTool_def run_concurrent_def flaky_search_def doc_def
        fixed_synthesis_def apply_update_def empty_update_def
        should_continue_after_generate_def should_continue_after_search_def
        should_continue_after_reflect_def state_has_error_def
        original_citations_map_def citation_string_at_end_def str_int_small
        strip_def isspace_def)

section \<open>The run: an HTTP 429 from the search\<close>

text \<open>
  The fixed apology is one text for every error. It does not name rate limiting; it
  contains "try again later", one of the phrases by which the test of the rate-limit run
  recognises an answer that mentions rate limiting. The text of the empty-evidence branch
  contains none of these phrases.
\<close>

lemma error_answer_try_again_later: "sublist ''try again later'' (lower error_answer)"
proof -
  have "lower error_answer =
          lower (''I'' @ [CHR 0x27] @ ''m unable to provide a complete answer at this time because of an error. Please '') @
          ''try again later'' @ ''.''"
    by (simp add: error_answer_def lower_def)
  then show ?thesis
    unfolding sublist_def by blast
qed

lemma error_answer_mentions_rate_limiting: "mentions_rate_limiting error_answer"
  using error_answer_try_again_later
  by (simp add: mentions_rate_limiting_def rate_limit_phrases_def)











section \<open>The steps and the failures of their collaborators\<close>

text \<open>
  The query-generation step and the web-search step catch what the call of their
  collaborator raises:
  each returns an update with one error record, tagged with its step, and a best-effort
  value for its field.
\<close>

lemma generate_queries_node_catches:
  "prompt (question s) = Inr p \<Longrightarrow> llm p = Inl e \<Longrightarrow>
     generate_queries_node prompt llm s =
       Inr ((log_error ''generate''
               (case e of RateLimitError m \<Rightarrow> ''RateLimit'' | OtherException m \<Rightarrow> ''LLMFailure'')
               (str_exc e))\<lparr>u_queries := Some []\<rparr>)"
  by (cases e) (simp_all add: generate_queries_node_def)

text \<open>What the construction of the prompt raises is not caught.\<close>

lemma generate_queries_node_prompt_raises:
  "prompt (question s) = Inl e \<Longrightarrow> generate_queries_node prompt llm s = Inl e"
  by (simp add: generate_queries_node_def)

lemma web_search_node_catches:
  "tool (queries s) = Inl e \<Longrightarrow>
     web_search_node tool s =
       Inr ((log_error ''search''
               (if sublist ''429'' (str_exc e) \<or> sublist ''Too Many Requests'' (str_exc e)
                then ''RateLimit'' else ''HTTPError'')
               (str_exc e))\<lparr>u_documents := Some (documents s)\<rparr>)"
  by (simp add: web_search_node_def)

text \<open>The reflection step does not: what its chain raises leaves the node.\<close>

lemma reflect_node_raises:
  "llm (question s) (documents s) = Inl e \<Longrightarrow> reflect_node llm s = Inl e"
  by (simp add: reflect_node_def)

text \<open>
  C2 holds for what the chain of the query-generation step and the batch of the
  web-search step raise, and fails for the reflection step. With a reflection chain that
  raises a rate-limit error, the step returns no
  update and records no error: the exception leaves the node, and the run ends with it
  after the nodes generate-queries, web-search and reflect, without reaching synthesis.
\<close>

theorem reflect_failure_propagates:
  "reflect_node (reflect_llm failing_reflect_collaborators 0) two_docs_state =
     Inl (RateLimitError ''quota exceeded'') \<and>
   invoke failing_reflect_collaborators (initial_state ''q'') =
     Raised (RateLimitError ''quota exceeded'') [GENERATE_QUERIES, WEB_SEARCH, REFLECT]"
  by (simp add: invoke_def invoke_from.simps failing_reflect_collaborators_def
        eager_collaborators_def initial_state_def two_docs_state_def
        generate_queries_node_def web_search_node_def reflect_node_def
        WebSearchTool_def run_concurrent_def flaky_search_def doc_def
        apply_update_def empty_update_def should_continue_after_generate_def
        should_continue_after_search_def state_has_error_def)

section \<open>The web-search step: merging a batch into the evidence\<close>

text \<open>
  C3, as the claim states it, fails: a document retrieved in a later round whose url is
  already in the evidence is appended all the same, and the evidence then holds two
  documents with that url.
\<close>

theorem merge_keeps_duplicate_counterexample:
  "web_search_node (WebSearchTool flaky_search)
      ((initial_state ''q'')\<lparr>queries := [''b''], documents := [doc ''u1'' ''first'']\<rparr>) =
     Inr (empty_update\<lparr>u_documents := Some [doc ''u1'' ''first'', doc ''u2'' ''other'',
                                             doc ''u3'' ''third'', doc ''u1'' ''late''],
                        u_queries := Some []\<rparr>) \<and>
   \<not> distinct (map url [doc ''u1'' ''first'', doc ''u2'' ''other'',
                        doc ''u3'' ''third'', doc ''u1'' ''late''])"
  by (simp add: web_search_node_def WebSearchTool_def run_concurrent_def flaky_search_def
        doc_def initial_state_def)

text \<open>
  C3, amended. When the batch returns, the evidence after the web-search step is the
  existing evidence, in its order, followed by all the documents of the batch, and the
  pending queries are cleared. Nothing is discarded: the urls of the result are pairwise
  distinct exactly when those of the existing evidence are, those of the batch are, and no
  url occurs in both.
\<close>

theorem web_search_merge:
  "tool (queries s) = Inr docs \<Longrightarrow>
     \<exists>u. web_search_node tool s = Inr u \<and>
         documents (apply_update s u) = documents s @ docs \<and>
         queries (apply_update s u) = [] \<and>
         errors (apply_update s u) = errors s \<and>
         (distinct (map url (documents (apply_update s u))) \<longleftrightarrow>
            distinct (map url (documents s)) \<and> distinct (map url docs) \<and>
            set (map url (documents s)) \<inter> set (map url docs) = {})"
  by (simp add: web_search_node_def apply_update_def empty_update_def)

theorem web_search_merge_witness:
  "WebSearchTool flaky_search [''a''] = Inr [doc ''u1'' ''first'', doc ''u2'' ''second''] \<and>
   (\<exists>u. web_search_node (WebSearchTool flaky_search)
          ((initial_state ''q'')\<lparr>queries := [''a''], documents := [doc ''u9'' ''old'']\<rparr>) = Inr u \<and>
        documents (apply_update
          ((initial_state ''q'')\<lparr>queries := [''a''], documents := [doc ''u9'' ''old'']\<rparr>) u) =
          [doc ''u9'' ''old'', doc ''u1'' ''first'', doc ''u2'' ''second''] \<and>
        distinct (map url (documents (apply_update
          ((initial_state ''q'')\<lparr>queries := [''a''], documents := [doc ''u9'' ''old'']\<rparr>) u))))"
  using web_search_merge [of "WebSearchTool flaky_search"
      "(initial_state ''q'')\<lparr>queries := [''a''], documents := [doc ''u9'' ''old'']\<rparr>"
      "[doc ''u1'' ''first'', doc ''u2'' ''second'']"]
  by (simp add: web_search_node_def WebSearchTool_def run_concurrent_def flaky_search_def
        doc_def initial_state_def apply_update_def empty_update_def)

end
